theory Spec2Isabelle
  imports Main "HOL-Library.Sublist"
begin

section \<open>Go values, rules and struct descriptions\<close>

text \<open>
  The package \<^verbatim>\<open>filter\<close> (file \<^verbatim>\<open>filter/rule.go\<close>) builds a condition string and a
  parameter list from a struct, and hands both to the \<^verbatim>\<open>Where\<close> method of a gorm
  database handle. Strings are byte lists; tags, operators and keywords are taken to be
  ASCII, so that \<^verbatim>\<open>strings.TrimSpace\<close> removes the six ASCII white-space bytes.
\<close>

datatype 'a slice = NilSlice | Slice "'a list"

fun elems :: "'a slice \<Rightarrow> 'a list" where
  "elems NilSlice = []"
| "elems (Slice xs) = xs"

text \<open>
  The dynamic values a field (or a parameter of the query) can hold: a string, an int, a
  bool, a \<^verbatim>\<open>[]string\<close> and a \<^verbatim>\<open>[]int\<close>; a slice is nil or has a list of elements.
\<close>

datatype gval =
    VString string
  | VInt int
  | VBool bool
  | VStrings "string slice"
  | VInts "int slice"

text \<open>\<^verbatim>\<open>reflect.Value.IsZero\<close>: the zero value of the type; for a slice, the nil slice.\<close>

fun IsZero :: "gval \<Rightarrow> bool" where
  "IsZero (VString s) = (s = [])"
| "IsZero (VInt i) = (i = 0)"
| "IsZero (VBool b) = (\<not> b)"
| "IsZero (VStrings sl) = (sl = NilSlice)"
| "IsZero (VInts sl) = (sl = NilSlice)"

text \<open>\<^verbatim>\<open>rfVal.Kind() == reflect.Slice && rfVal.Len() == 0\<close>.\<close>

fun emptySlice :: "gval \<Rightarrow> bool" where
  "emptySlice (VStrings sl) = (elems sl = [])"
| "emptySlice (VInts sl) = (elems sl = [])"
| "emptySlice _ = False"

record Rule =
  Name :: string
  Opt :: string
  Table :: string
  UseZero :: bool

text \<open>
  A struct field as the code reads it through reflection: the value of its \<^verbatim>\<open>json\<close> tag,
  the value of its \<^verbatim>\<open>filter\<close> tag (both empty when the tag is absent), and its current
  value. Fields are listed in declaration order, and they are exported fields, the ones
  whose value \<^verbatim>\<open>Interface\<close> hands out.
\<close>

record Field =
  json_tag :: string
  filter_tag :: string
  fvalue :: gval

text \<open>The argument \<^verbatim>\<open>dest any\<close>: a struct, a pointer (possibly nil), or anything else.\<close>

datatype dest = Struct "Field list" | Ptr "dest option" | Other gval | NilAny

text \<open>
  \<^verbatim>\<open>rv := reflect.ValueOf(dest); if rv.Kind() == reflect.Ptr { rv = rv.Elem() }\<close>, followed
  by the test \<^verbatim>\<open>rv.Kind() != reflect.Struct\<close>: one pointer is followed, no more.
\<close>

fun struct_fields :: "dest \<Rightarrow> Field list option" where
  "struct_fields (Struct fs) = Some fs"
| "struct_fields (Ptr (Some (Struct fs))) = Some fs"
| "struct_fields _ = None"

datatype error =
    IndexOutOfRange
  | ParseBoolError string
  | TypeAssertion
  | DateRangeValues
  | InvalidValue

section \<open>The string functions of the standard library that the code calls\<close>

definition is_space :: "char \<Rightarrow> bool" where
  "is_space c = (c = CHR '' '' \<or> (9 \<le> (of_char c :: nat) \<and> (of_char c :: nat) \<le> 13))"

definition TrimSpace :: "string \<Rightarrow> string" where
  "TrimSpace s = rev (dropWhile is_space (rev (dropWhile is_space s)))"

definition Trim :: "string \<Rightarrow> string \<Rightarrow> string" where
  "Trim s cutset =
     rev (dropWhile (\<lambda>c. c \<in> set cutset) (rev (dropWhile (\<lambda>c. c \<in> set cutset) s)))"

text \<open>\<^verbatim>\<open>strings.Split\<close> with a separator of one byte: the empty string gives one empty piece.\<close>

fun Split :: "string \<Rightarrow> char \<Rightarrow> string list" where
  "Split [] sep = [[]]"
| "Split (c # cs) sep =
     (if c = sep then [] # Split cs sep
      else (case Split cs sep of [] \<Rightarrow> [[c]] | p # ps \<Rightarrow> (c # p) # ps))"

fun Join :: "string list \<Rightarrow> string \<Rightarrow> string" where
  "Join [] sep = []"
| "Join [x] sep = x"
| "Join (x # y # ys) sep = x @ sep @ Join (y # ys) sep"

text \<open>\<^verbatim>\<open>strings.Index\<close>: the position of the first occurrence, \<open>None\<close> for \<^verbatim>\<open>-1\<close>.\<close>

fun Index :: "string \<Rightarrow> string \<Rightarrow> nat option" where
  "Index [] sub = (if sub = [] then Some 0 else None)"
| "Index (c # cs) sub =
     (if prefix sub (c # cs) then Some 0 else map_option Suc (Index cs sub))"

definition ParseBool :: "string \<Rightarrow> bool option" where
  "ParseBool s =
     (if s \<in> {''1'', ''t'', ''T'', ''TRUE'', ''true'', ''True''} then Some True
      else if s \<in> {''0'', ''f'', ''F'', ''FALSE'', ''false'', ''False''} then Some False
      else None)"

section \<open>The package\<close>

definition Eq :: string where [simp]: "Eq = ''=''"
definition Like :: string where [simp]: "Like = ''like''"
definition Rlike :: string where [simp]: "Rlike = ''rlike''"
definition GT :: string where [simp]: "GT = ''>''"
definition LT :: string where [simp]: "LT = ''<''"
definition GTE :: string where [simp]: "GTE = ''>=''"
definition LTE :: string where [simp]: "LTE = ''<=''"
definition In :: string where [simp]: "In = ''in''"
definition DateRange :: string where [simp]: "DateRange = ''date_range''"

definition removeOmitempty :: "string \<Rightarrow> string" where
  "removeOmitempty tag =
     (case Index tag '',omitempty'' of
        Some idx \<Rightarrow> take idx tag
      | None \<Rightarrow>
          (case Index tag '',optional'' of
             Some idx \<Rightarrow> take idx tag
           | None \<Rightarrow> tag))"

text \<open>
  \<^verbatim>\<open>parseRule\<close> appends to the two slices it is given and returns them. The type
  assertions \<^verbatim>\<open>value.(string)\<close> and \<^verbatim>\<open>value.([]string)\<close> panic on a value of another
  type, and so does a date range that does not have two elements.
\<close>

definition parseRule ::
  "Rule \<Rightarrow> gval \<Rightarrow> string list \<Rightarrow> gval list \<Rightarrow> error + (string list \<times> gval list)" where
  "parseRule rule rfVal conditions params =
     (let name = (if Table rule \<noteq> [] then Table rule @ ''.'' @ Name rule else Name rule);
          opt = (if Opt rule = [] then Eq else Opt rule);
          value = rfVal
      in if opt = Eq then Inr (conditions @ [name @ '' = ?''], params @ [value])
         else if opt = Like then
           (case value of
              VString s \<Rightarrow>
                Inr (conditions @ [name @ '' like ?''], params @ [VString (''%'' @ s @ ''%'')])
            | _ \<Rightarrow> Inl TypeAssertion)
         else if opt = Rlike then Inr (conditions @ [name @ '' rlike ?''], params @ [value])
         else if opt = GT then Inr (conditions @ [name @ '' > ?''], params @ [value])
         else if opt = LT then Inr (conditions @ [name @ '' < ?''], params @ [value])
         else if opt = GTE then Inr (conditions @ [name @ '' >= ?''], params @ [value])
         else if opt = LTE then Inr (conditions @ [name @ '' <= ?''], params @ [value])
         else if opt = In then Inr (conditions @ [name @ '' in (?)''], params @ [value])
         else if opt = DateRange then
           (case value of
              VStrings sl \<Rightarrow>
                (let dates = elems sl
                 in if length dates \<noteq> 2 then Inl DateRangeValues
                    else
                      (let sTime = dates ! 0 @ '' 00:00:00'';
                           eTime = dates ! 1 @ '' 23:59:59''
                       in Inr (conditions @ [name @ '' between ? and ?''],
                               params @ [VString sTime, VString eTime])))
            | _ \<Rightarrow> Inl TypeAssertion)
         else Inr (conditions, params))"

text \<open>
  The inner loop of \<^verbatim>\<open>Filter\<close> over the entries of one \<^verbatim>\<open>filter\<close> tag. \<^verbatim>\<open>kv[1]\<close> panics
  with an index out of range when the entry has no colon; \<^verbatim>\<open>strconv.ParseBool\<close> returns an
  error, which the code turns into a panic.
\<close>

fun parseTags :: "string list \<Rightarrow> Rule \<Rightarrow> error + Rule" where
  "parseTags [] rule = Inr rule"
| "parseTags (filterTag # filterTags) rule =
     (let kv = Split filterTag CHR '':''
      in if length kv < 2 then Inl IndexOutOfRange
         else
           (let k = TrimSpace (kv ! 0);
                v = TrimSpace (kv ! 1)
            in if k = ''opt'' then parseTags filterTags (rule\<lparr>Opt := v\<rparr>)
               else if k = ''table'' then parseTags filterTags (rule\<lparr>Table := v\<rparr>)
               else if k = ''use_zero'' \<or> k = ''useZero'' then
                 (case ParseBool v of
                    None \<Rightarrow> Inl (ParseBoolError v)
                  | Some b \<Rightarrow> parseTags filterTags (rule\<lparr>UseZero := b\<rparr>))
               else parseTags filterTags rule))"

text \<open>The first loop of \<^verbatim>\<open>Filter\<close>: one rule for each field with a filter tag.\<close>

fun Filter_rules ::
  "Field list \<Rightarrow> (string \<rightharpoonup> gval) \<Rightarrow> Rule list \<Rightarrow> error + ((string \<rightharpoonup> gval) \<times> Rule list)" where
  "Filter_rules [] destMap rules = Inr (destMap, rules)"
| "Filter_rules (f # fs) destMap rules =
     (let filterTagStr = Trim (filter_tag f) '' ;,''
      in if filterTagStr = [] \<or> filterTagStr = ''-'' then Filter_rules fs destMap rules
         else
           (let name = TrimSpace (removeOmitempty (json_tag f));
                destMap' = destMap(name \<mapsto> fvalue f)
            in case parseTags (Split filterTagStr CHR '';'')
                      \<lparr>Name = name, Opt = [], Table = [], UseZero = False\<rparr> of
                 Inl e \<Rightarrow> Inl e
               | Inr rule \<Rightarrow> Filter_rules fs destMap' (rules @ [rule])))"

text \<open>
  The second loop of \<^verbatim>\<open>Filter\<close>. A name that is not in the map gives the zero
  \<^verbatim>\<open>reflect.Value\<close>, on which \<^verbatim>\<open>IsZero\<close> panics.
\<close>

fun Filter_loop ::
  "(string \<rightharpoonup> gval) \<Rightarrow> Rule list \<Rightarrow> string list \<Rightarrow> gval list
     \<Rightarrow> error + (string list \<times> gval list)" where
  "Filter_loop destMap [] conditions params = Inr (conditions, params)"
| "Filter_loop destMap (rule # rules) conditions params =
     (case destMap (Name rule) of
        None \<Rightarrow> Inl InvalidValue
      | Some rfVal \<Rightarrow>
          if (IsZero rfVal \<or> emptySlice rfVal) \<and> \<not> UseZero rule
          then Filter_loop destMap rules conditions params
          else (case parseRule rule rfVal conditions params of
                  Inl e \<Rightarrow> Inl e
                | Inr (conditions', params') \<Rightarrow> Filter_loop destMap rules conditions' params'))"

text \<open>
  The entry points return a function on the database handle. \<^verbatim>\<open>db.Where\<close> belongs to
  gorm, not to this package: it is the parameter \<open>wh\<close>, which takes the condition
  string, the parameters and the handle, and returns the handle with the condition
  attached.
\<close>

definition Filter ::
  "(string \<Rightarrow> gval list \<Rightarrow> 'db \<Rightarrow> 'db) \<Rightarrow> dest \<Rightarrow> 'db \<Rightarrow> error + 'db" where
  "Filter wh d db =
     (case struct_fields d of
        None \<Rightarrow> Inr db
      | Some fs \<Rightarrow>
          (case Filter_rules fs Map.empty [] of
             Inl e \<Rightarrow> Inl e
           | Inr (destMap, rules) \<Rightarrow>
               if length rules = 0 then Inr db
               else (case Filter_loop destMap rules [] [] of
                       Inl e \<Rightarrow> Inl e
                     | Inr (conditions, params) \<Rightarrow>
                         Inr (wh (Join conditions '' AND '') params db))))"

text \<open>\<^verbatim>\<open>Search\<close>: the map from json names to field values; a field with no name is left out.\<close>

fun Search_destMap :: "Field list \<Rightarrow> (string \<rightharpoonup> gval) \<Rightarrow> (string \<rightharpoonup> gval)" where
  "Search_destMap [] destMap = destMap"
| "Search_destMap (f # fs) destMap =
     (let jsonField = TrimSpace (removeOmitempty (json_tag f))
      in if jsonField \<noteq> [] then Search_destMap fs (destMap(jsonField \<mapsto> fvalue f))
         else Search_destMap fs destMap)"

fun Search_loop ::
  "(string \<rightharpoonup> gval) \<Rightarrow> Rule list \<Rightarrow> string list \<Rightarrow> gval list
     \<Rightarrow> error + (string list \<times> gval list)" where
  "Search_loop destMap [] conditions params = Inr (conditions, params)"
| "Search_loop destMap (rule # rules) conditions params =
     (case destMap (Name rule) of
        None \<Rightarrow> Search_loop destMap rules conditions params
      | Some rfVal \<Rightarrow>
          if IsZero rfVal \<and> \<not> UseZero rule
          then Search_loop destMap rules conditions params
          else (case parseRule rule rfVal conditions params of
                  Inl e \<Rightarrow> Inl e
                | Inr (conditions', params') \<Rightarrow> Search_loop destMap rules conditions' params'))"

definition Search ::
  "(string \<Rightarrow> gval list \<Rightarrow> 'db \<Rightarrow> 'db) \<Rightarrow> Rule list \<Rightarrow> dest \<Rightarrow> 'db \<Rightarrow> error + 'db" where
  "Search wh rules d db =
     (case struct_fields d of
        None \<Rightarrow> Inr db
      | Some fs \<Rightarrow>
          if length rules = 0 then Inr db
          else (case Search_loop (Search_destMap fs Map.empty) rules [] [] of
                  Inl e \<Rightarrow> Inl e
                | Inr (conditions, params) \<Rightarrow>
                    Inr (wh (Join conditions '' AND '') params db)))"

fun MultiSearch_loop ::
  "Rule list \<Rightarrow> gval \<Rightarrow> string list \<Rightarrow> gval list \<Rightarrow> error + (string list \<times> gval list)" where
  "MultiSearch_loop [] rfVal conditions params = Inr (conditions, params)"
| "MultiSearch_loop (rule # rules) rfVal conditions params =
     (case parseRule rule rfVal conditions params of
        Inl e \<Rightarrow> Inl e
      | Inr (conditions', params') \<Rightarrow> MultiSearch_loop rules rfVal conditions' params')"

definition MultiSearch ::
  "(string \<Rightarrow> gval list \<Rightarrow> 'db \<Rightarrow> 'db) \<Rightarrow> Rule list \<Rightarrow> string \<Rightarrow> 'db \<Rightarrow> error + 'db" where
  "MultiSearch wh rules dest0 db =
     (let dest = TrimSpace dest0
      in if dest = [] then Inr db
         else if length rules = 0 then Inr db
         else (case MultiSearch_loop rules (VString dest) [] [] of
                 Inl e \<Rightarrow> Inl e
               | Inr (conditions, params) \<Rightarrow>
                   Inr (wh (Join conditions '' OR '') params db)))"

text \<open>
  An executor that keeps, in order, every condition it is handed: the handle is the list
  of the calls of \<^verbatim>\<open>Where\<close> made on it.
\<close>

definition record_where ::
  "string \<Rightarrow> gval list \<Rightarrow> (string \<times> gval list) list \<Rightarrow> (string \<times> gval list) list" where
  "record_where query args db = db @ [(query, args)]"

text \<open>
  The struct of the package's examples, \<^verbatim>\<open>MockUserFilter{Name: name, Age: age}\<close>, with
  the tags \<^verbatim>\<open>json:"name" filter:"opt:rlike"\<close> and \<^verbatim>\<open>json:"age" filter:"opt:="\<close>.
\<close>

definition MockUserFilter_fields :: "string \<Rightarrow> int \<Rightarrow> Field list" where
  "MockUserFilter_fields name age =
     [\<lparr>json_tag = ''name'', filter_tag = ''opt:rlike'', fvalue = VString name\<rparr>,
      \<lparr>json_tag = ''age'', filter_tag = ''opt:='', fvalue = VInt age\<rparr>]"

definition MockUserFilter :: "string \<Rightarrow> int \<Rightarrow> dest" where
  "MockUserFilter name age = Struct (MockUserFilter_fields name age)"

text \<open>The rule list of the package's examples.\<close>

definition example_rules :: "Rule list" where
  "example_rules =
     [\<lparr>Name = ''name'', Opt = ''rlike'', Table = [], UseZero = False\<rparr>,
      \<lparr>Name = ''age'', Opt = ''='', Table = [], UseZero = False\<rparr>]"

text \<open>
  The column reference that \<^verbatim>\<open>parseRule\<close> writes into a fragment: the name, with the
  table and a dot in front when the table is set.
\<close>

definition column :: "Rule \<Rightarrow> string" where
  "column rule = (if Table rule \<noteq> [] then Table rule @ ''.'' @ Name rule else Name rule)"


section \<open>The examples of the package\<close>

lemmas string_defs = TrimSpace_def Trim_def is_space_def removeOmitempty_def ParseBool_def

text \<open>
  Claim C3. \<^verbatim>\<open>Filter\<close> on \<^verbatim>\<open>MockUserFilter{Name: "John", Age: 20}\<close>, whose fields carry
  \<^verbatim>\<open>json:"name" filter:"opt:rlike"\<close> and \<^verbatim>\<open>json:"age" filter:"opt:="\<close>, hands the executor
  the condition \<^verbatim>\<open>name rlike ? AND age = ?\<close> with the parameters \<^verbatim>\<open>"John"\<close> and \<^verbatim>\<open>20\<close>,
  in the order of the fields.
\<close>

theorem Filter_example:
  "Filter wh (MockUserFilter ''John'' 20) db
     = Inr (wh ''name rlike ? AND age = ?'' [VString ''John'', VInt 20] db)"
  by (simp add: Filter_def MockUserFilter_def MockUserFilter_fields_def string_defs Let_def
                parseRule_def)

theorem Filter_example_witness:
  "Filter record_where (MockUserFilter ''John'' 20) []
     = Inr [(''name rlike ? AND age = ?'', [VString ''John'', VInt 20])]"
proof -
  have log: "\<And>query args. record_where query args [] = [(query, args)]"
    by (simp add: record_where_def)
  from Filter_example [of record_where "[]"] show ?thesis
    unfolding log .
qed

text \<open>
  Claim C4. \<^verbatim>\<open>Search\<close> with the rules \<^verbatim>\<open>{Name: "name", Opt: "rlike"}\<close> and
  \<^verbatim>\<open>{Name: "age", Opt: "="}\<close> on the same struct gives the condition and the parameters
  that \<^verbatim>\<open>Filter\<close> gives from the tags.
\<close>

theorem Search_example_eq_Filter:
  "Search wh example_rules (MockUserFilter ''John'' 20) db
     = Filter wh (MockUserFilter ''John'' 20) db
   \<and> Search wh example_rules (MockUserFilter ''John'' 20) db
     = Inr (wh ''name rlike ? AND age = ?'' [VString ''John'', VInt 20] db)"
  by (simp add: Search_def Filter_def MockUserFilter_def MockUserFilter_fields_def
                example_rules_def string_defs Let_def parseRule_def)

theorem Search_example_eq_Filter_witness:
  "Search record_where example_rules (MockUserFilter ''John'' 20) []
     = Filter record_where (MockUserFilter ''John'' 20) []
   \<and> Search record_where example_rules (MockUserFilter ''John'' 20) []
     = Inr [(''name rlike ? AND age = ?'', [VString ''John'', VInt 20])]"
proof -
  have log: "\<And>query args. record_where query args [] = [(query, args)]"
    by (simp add: record_where_def)
  from Search_example_eq_Filter [of record_where "[]"] show ?thesis
    unfolding log .
qed

text \<open>
  Claim C5. \<^verbatim>\<open>MultiSearch\<close> with the same rules and the keyword \<^verbatim>\<open>"keyword"\<close> hands the
  executor the condition \<^verbatim>\<open>name rlike ? OR age = ?\<close> with the keyword as both parameters.
\<close>

theorem MultiSearch_example:
  "MultiSearch wh example_rules ''keyword'' db
     = Inr (wh ''name rlike ? OR age = ?'' [VString ''keyword'', VString ''keyword''] db)"
  by (simp add: MultiSearch_def example_rules_def string_defs Let_def parseRule_def)

theorem MultiSearch_example_witness:
  "MultiSearch record_where example_rules ''keyword'' []
     = Inr [(''name rlike ? OR age = ?'', [VString ''keyword'', VString ''keyword''])]"
proof -
  have log: "\<And>query args. record_where query args [] = [(query, args)]"
    by (simp add: record_where_def)
  from MultiSearch_example [of record_where "[]"] show ?thesis
    unfolding log .
qed

section \<open>Rendering one rule\<close>

text \<open>
  Claim C9. A rule whose operator is not empty and is none of \<^verbatim>\<open>=\<close>, \<^verbatim>\<open>like\<close>,
  \<^verbatim>\<open>rlike\<close>, \<^verbatim>\<open>>\<close>, \<^verbatim>\<open><\<close>, \<^verbatim>\<open>>=\<close>, \<^verbatim>\<open><=\<close>, \<^verbatim>\<open>in\<close>, \<^verbatim>\<open>date_range\<close> adds no fragment
  and no parameter; a rule with the empty operator is rendered as the same rule with
  \<^verbatim>\<open>=\<close>, that is with the fragment \<^verbatim>\<open>column = ?\<close> and the raw value.
\<close>

theorem unrecognised_operator_ignored:
  "(Opt rule \<noteq> [] \<and> Opt rule \<notin> {Eq, Like, Rlike, GT, LT, GTE, LTE, In, DateRange}
      \<longrightarrow> parseRule rule v cs ps = Inr (cs, ps))
   \<and> (Opt rule = [] \<longrightarrow>
        parseRule rule v cs ps = parseRule (rule\<lparr>Opt := Eq\<rparr>) v cs ps
        \<and> parseRule rule v cs ps = Inr (cs @ [column rule @ '' = ?''], ps @ [v]))"
  unfolding parseRule_def column_def Let_def by simp

theorem unrecognised_operator_ignored_witness:
  "parseRule \<lparr>Name = ''age'', Opt = ''!='', Table = [], UseZero = False\<rparr>
       (VInt 20) [''a = ?''] [VInt 1]
     = Inr ([''a = ?''], [VInt 1])
   \<and> parseRule \<lparr>Name = ''age'', Opt = [], Table = ''users'', UseZero = False\<rparr> (VInt 20) [] []
     = Inr ([''users.age = ?''], [VInt 20])"
proof -
  have unknown: "parseRule \<lparr>Name = ''age'', Opt = ''!='', Table = [], UseZero = False\<rparr>
                   (VInt 20) [''a = ?''] [VInt 1] = Inr ([''a = ?''], [VInt 1])"
    using unrecognised_operator_ignored
            [of "\<lparr>Name = ''age'', Opt = ''!='', Table = [], UseZero = False\<rparr>"
                "VInt 20" "[''a = ?'']" "[VInt 1]"]
    by simp
  have empty: "parseRule \<lparr>Name = ''age'', Opt = [], Table = ''users'', UseZero = False\<rparr>
                 (VInt 20) [] [] = Inr ([''users.age = ?''], [VInt 20])"
    using unrecognised_operator_ignored
            [of "\<lparr>Name = ''age'', Opt = [], Table = ''users'', UseZero = False\<rparr>"
                "VInt 20" "[]" "[]"]
    by (auto simp: column_def)
  from unknown empty show ?thesis by (rule conjI)
qed



section \<open>The skip policies\<close>

text \<open>
  Claim C7. For a rule with \<^verbatim>\<open>UseZero\<close> false: the loop of \<^verbatim>\<open>Filter\<close> drops the rule when
  its value is the zero value or a slice of length 0, and renders it otherwise; the loop
  of \<^verbatim>\<open>Search\<close> drops it when the value is the zero value and renders it otherwise. The
  two tests disagree exactly on the empty slices that are not nil, which \<^verbatim>\<open>Filter\<close> drops
  and \<^verbatim>\<open>Search\<close> renders.
\<close>

theorem skip_policies_differ:
  assumes "destMap (Name rule) = Some v" and "\<not> UseZero rule"
  shows "(IsZero v \<or> emptySlice v
            \<longrightarrow> Filter_loop destMap (rule # rules) cs ps = Filter_loop destMap rules cs ps)
       \<and> (\<not> IsZero v \<and> \<not> emptySlice v
            \<longrightarrow> Filter_loop destMap (rule # rules) cs ps =
                (case parseRule rule v cs ps of
                   Inl e \<Rightarrow> Inl e
                 | Inr (cs', ps') \<Rightarrow> Filter_loop destMap rules cs' ps'))
       \<and> (IsZero v
            \<longrightarrow> Search_loop destMap (rule # rules) cs ps = Search_loop destMap rules cs ps)
       \<and> (\<not> IsZero v
            \<longrightarrow> Search_loop destMap (rule # rules) cs ps =
                (case parseRule rule v cs ps of
                   Inl e \<Rightarrow> Inl e
                 | Inr (cs', ps') \<Rightarrow> Search_loop destMap rules cs' ps'))
       \<and> ((emptySlice v \<and> \<not> IsZero v) = (v = VStrings (Slice []) \<or> v = VInts (Slice [])))"
proof -
  have "(emptySlice v \<and> \<not> IsZero v) = (v = VStrings (Slice []) \<or> v = VInts (Slice []))"
  proof (cases v)
    case (VStrings sl)
    then show ?thesis by (cases sl) auto
  next
    case (VInts sl)
    then show ?thesis by (cases sl) auto
  qed auto
  with assms show ?thesis by simp
qed

theorem skip_policies_differ_witness:
  "Filter_loop [''ids'' \<mapsto> VInts (Slice [])]
       [\<lparr>Name = ''ids'', Opt = ''in'', Table = [], UseZero = False\<rparr>] [] []
     = Inr ([], [])
   \<and> Search_loop [''ids'' \<mapsto> VInts (Slice [])]
       [\<lparr>Name = ''ids'', Opt = ''in'', Table = [], UseZero = False\<rparr>] [] []
     = Inr ([''ids in (?)''], [VInts (Slice [])])"
  using skip_policies_differ
    [where destMap = "[''ids'' \<mapsto> VInts (Slice [])]"
       and rule = "\<lparr>Name = ''ids'', Opt = ''in'', Table = [], UseZero = False\<rparr>"
       and v = "VInts (Slice [])" and rules = "[]" and cs = "[]" and ps = "[]"]
  by (simp add: parseRule_def)

section \<open>When every rule is dropped\<close>






section \<open>Placeholders and parameters\<close>























section \<open>Tags that abort the build\<close>

lemma Split_no_sep: "sep \<notin> set s \<Longrightarrow> Split s sep = [s]"
  by (induction s) auto

lemma parseTags_no_colon:
  "e \<in> set entries \<Longrightarrow> CHR '':'' \<notin> set e \<Longrightarrow> \<exists>err. parseTags entries rule = Inl err"
proof (induction entries arbitrary: rule)
  case Nil
  then show ?case by simp
next
  case (Cons a entries)
  show ?case
  proof (cases "a = e")
    case True
    with Cons.prems show ?thesis by (simp add: Split_no_sep)
  next
    case False
    with Cons.prems have "e \<in> set entries" by simp
    then have "\<And>r. \<exists>err. parseTags entries r = Inl err"
      using Cons.IH Cons.prems(2) by blast
    then show ?thesis
      by (simp add: Let_def split: option.split)
  qed
qed

lemma parseTags_bad_bool:
  "e \<in> set entries \<Longrightarrow> 1 < length (Split e CHR '':'')
     \<Longrightarrow> TrimSpace (Split e CHR '':'' ! 0) \<in> {''use_zero'', ''useZero''}
     \<Longrightarrow> ParseBool (TrimSpace (Split e CHR '':'' ! 1)) = None
     \<Longrightarrow> \<exists>err. parseTags entries rule = Inl err"
proof (induction entries arbitrary: rule)
  case Nil
  then show ?case by simp
next
  case (Cons a entries)
  show ?case
  proof (cases "a = e")
    case True
    with Cons.prems show ?thesis by (auto simp: Let_def)
  next
    case False
    with Cons.prems have "e \<in> set entries" by simp
    then have "\<And>r. \<exists>err. parseTags entries r = Inl err"
      using Cons.IH Cons.prems by blast
    then show ?thesis
      by (simp add: Let_def split: option.split)
  qed
qed

text \<open>A field whose tag always fails to parse makes the first loop of \<^verbatim>\<open>Filter\<close> fail.\<close>

lemma Filter_rules_abort:
  "f \<in> set fs \<Longrightarrow> Trim (filter_tag f) '' ;,'' \<noteq> [] \<Longrightarrow> Trim (filter_tag f) '' ;,'' \<noteq> ''-''
     \<Longrightarrow> (\<And>rule. \<exists>err. parseTags (Split (Trim (filter_tag f) '' ;,'') CHR '';'') rule = Inl err)
     \<Longrightarrow> \<exists>err. Filter_rules fs destMap rules = Inl err"
proof (induction fs arbitrary: destMap rules)
  case Nil
  then show ?case by simp
next
  case (Cons a fs)
  show ?case
  proof (cases "a = f")
    case True
    obtain err where
      "parseTags (Split (Trim (filter_tag f) '' ;,'') CHR '';'')
         \<lparr>Name = TrimSpace (removeOmitempty (json_tag f)), Opt = [], Table = [],
          UseZero = False\<rparr> = Inl err"
      using Cons.prems(4) by blast
    with True Cons.prems(2,3) show ?thesis by (simp add: Let_def)
  next
    case False
    with Cons.prems have "f \<in> set fs" by simp
    then have "\<And>m rs. \<exists>err. Filter_rules fs m rs = Inl err"
      using Cons.IH Cons.prems by blast
    then show ?thesis
      by (simp add: Let_def split: sum.split)
  qed
qed

lemma Filter_abort:
  "struct_fields d = Some fs \<Longrightarrow> \<exists>err. Filter_rules fs Map.empty [] = Inl err
     \<Longrightarrow> \<exists>err. Filter wh d db = Inl err"
  by (auto simp: Filter_def)

text \<open>
  Claim C8. When a field of the struct has a filter tag (other than the exclusion mark)
  with an entry whose key is \<^verbatim>\<open>use_zero\<close> or \<^verbatim>\<open>useZero\<close> and whose value
  \<^verbatim>\<open>strconv.ParseBool\<close> rejects, \<^verbatim>\<open>Filter\<close> panics: the result is an error, never a handle.
  At that entry the panic carries the error of \<^verbatim>\<open>ParseBool\<close>.
\<close>

theorem malformed_use_zero_aborts:
  assumes "struct_fields d = Some fs"
    and "f \<in> set fs"
    and "Trim (filter_tag f) '' ;,'' \<noteq> []"
    and "Trim (filter_tag f) '' ;,'' \<noteq> ''-''"
    and "e \<in> set (Split (Trim (filter_tag f) '' ;,'') CHR '';'')"
    and "1 < length (Split e CHR '':'')"
    and "TrimSpace (Split e CHR '':'' ! 0) \<in> {''use_zero'', ''useZero''}"
    and "ParseBool (TrimSpace (Split e CHR '':'' ! 1)) = None"
  shows "(\<exists>err. Filter wh d db = Inl err)
       \<and> parseTags (e # rest) rule = Inl (ParseBoolError (TrimSpace (Split e CHR '':'' ! 1)))"
proof
  have "\<And>r. \<exists>err. parseTags (Split (Trim (filter_tag f) '' ;,'') CHR '';'') r = Inl err"
    using assms(5,6,7,8) by (rule parseTags_bad_bool)
  then have "\<exists>err. Filter_rules fs Map.empty [] = Inl err"
    using assms(2,3,4) Filter_rules_abort by blast
  with assms(1) show "\<exists>err. Filter wh d db = Inl err"
    by (rule Filter_abort)
  show "parseTags (e # rest) rule = Inl (ParseBoolError (TrimSpace (Split e CHR '':'' ! 1)))"
    using assms(6,7,8) by (auto simp: Let_def)
qed

theorem malformed_use_zero_aborts_witness:
  "struct_fields
       (Struct [\<lparr>json_tag = ''name'', filter_tag = ''opt:=;use_zero:yes'', fvalue = VString ''x''\<rparr>])
     = Some [\<lparr>json_tag = ''name'', filter_tag = ''opt:=;use_zero:yes'', fvalue = VString ''x''\<rparr>]
   \<and> ''use_zero:yes'' \<in> set (Split (Trim ''opt:=;use_zero:yes'' '' ;,'') CHR '';'')
   \<and> ParseBool (TrimSpace (Split ''use_zero:yes'' CHR '':'' ! 1)) = None
   \<and> (\<exists>err. Filter record_where
        (Struct [\<lparr>json_tag = ''name'', filter_tag = ''opt:=;use_zero:yes'',
                  fvalue = VString ''x''\<rparr>]) []
          = Inl err)
   \<and> parseTags [''use_zero:yes''] \<lparr>Name = ''name'', Opt = ''='', Table = [], UseZero = False\<rparr>
       = Inl (ParseBoolError ''yes'')"
  using malformed_use_zero_aborts
    [where d = "Struct [\<lparr>json_tag = ''name'', filter_tag = ''opt:=;use_zero:yes'',
                         fvalue = VString ''x''\<rparr>]"
       and fs = "[\<lparr>json_tag = ''name'', filter_tag = ''opt:=;use_zero:yes'',
                   fvalue = VString ''x''\<rparr>]"
       and f = "\<lparr>json_tag = ''name'', filter_tag = ''opt:=;use_zero:yes'',
                 fvalue = VString ''x''\<rparr>"
       and e = "''use_zero:yes''" and wh = record_where and db = "[]" and rest = "[]"
       and rule = "\<lparr>Name = ''name'', Opt = ''='', Table = [], UseZero = False\<rparr>"]
  by (simp add: string_defs)

text \<open>
  Claim C10. When a field of the struct has a filter tag (other than the exclusion mark)
  with an entry that contains no colon, such as the whole tag \<^verbatim>\<open>opt\<close> or the empty entry
  between two semicolons, \<^verbatim>\<open>Filter\<close> panics: the result is an error, never a handle. At
  that entry the panic is the index out of range of \<^verbatim>\<open>kv[1]\<close>.
\<close>

theorem entry_without_colon_aborts:
  assumes "struct_fields d = Some fs"
    and "f \<in> set fs"
    and "Trim (filter_tag f) '' ;,'' \<noteq> []"
    and "Trim (filter_tag f) '' ;,'' \<noteq> ''-''"
    and "e \<in> set (Split (Trim (filter_tag f) '' ;,'') CHR '';'')"
    and "CHR '':'' \<notin> set e"
  shows "(\<exists>err. Filter wh d db = Inl err) \<and> parseTags (e # rest) rule = Inl IndexOutOfRange"
proof
  have "\<And>r. \<exists>err. parseTags (Split (Trim (filter_tag f) '' ;,'') CHR '';'') r = Inl err"
    using assms(5,6) by (rule parseTags_no_colon)
  then have "\<exists>err. Filter_rules fs Map.empty [] = Inl err"
    using assms(2,3,4) Filter_rules_abort by blast
  with assms(1) show "\<exists>err. Filter wh d db = Inl err"
    by (rule Filter_abort)
  show "parseTags (e # rest) rule = Inl IndexOutOfRange"
    using assms(6) by (simp add: Split_no_sep)
qed

theorem entry_without_colon_aborts_witness:
  "struct_fields
       (Struct [\<lparr>json_tag = ''name'', filter_tag = ''opt:=;;table:t'', fvalue = VString ''x''\<rparr>])
     = Some [\<lparr>json_tag = ''name'', filter_tag = ''opt:=;;table:t'', fvalue = VString ''x''\<rparr>]
   \<and> [] \<in> set (Split (Trim ''opt:=;;table:t'' '' ;,'') CHR '';'')
   \<and> (\<exists>err. Filter record_where
        (Struct [\<lparr>json_tag = ''name'', filter_tag = ''opt:=;;table:t'',
                  fvalue = VString ''x''\<rparr>]) []
          = Inl err)
   \<and> parseTags [[], ''table:t''] \<lparr>Name = ''name'', Opt = ''='', Table = [], UseZero = False\<rparr>
       = Inl IndexOutOfRange"
  using entry_without_colon_aborts
    [where d = "Struct [\<lparr>json_tag = ''name'', filter_tag = ''opt:=;;table:t'',
                         fvalue = VString ''x''\<rparr>]"
       and fs = "[\<lparr>json_tag = ''name'', filter_tag = ''opt:=;;table:t'',
                   fvalue = VString ''x''\<rparr>]"
       and f = "\<lparr>json_tag = ''name'', filter_tag = ''opt:=;;table:t'', fvalue = VString ''x''\<rparr>"
       and e = "[]" and wh = record_where and db = "[]" and rest = "[''table:t'']"
       and rule = "\<lparr>Name = ''name'', Opt = ''='', Table = [], UseZero = False\<rparr>"]
  by (simp add: Trim_def)

end
